theory Spec2Isabelle
  imports Complex_Main
begin

section \<open>Floating-point values and Python's string operations\<close>

text \<open>
  A Python \<^verbatim>\<open>float\<close> is modelled by the real number it denotes, or one of the three
  special IEEE values. Negative zero is identified with zero (the two compare equal in
  Python, and nothing below distinguishes them).
\<close>

datatype pyfloat = Finite real | PosInf | NegInf | NaN

text \<open>The comparisons \<^verbatim>\<open><=\<close> and \<^verbatim>\<open>>\<close> of floats: every comparison with NaN is false.\<close>

fun py_le :: "pyfloat \<Rightarrow> pyfloat \<Rightarrow> bool" where
  "py_le NaN _ = False"
| "py_le _ NaN = False"
| "py_le NegInf _ = True"
| "py_le _ PosInf = True"
| "py_le (Finite a) (Finite b) = (a \<le> b)"
| "py_le PosInf _ = False"
| "py_le _ NegInf = False"

fun py_gt :: "pyfloat \<Rightarrow> pyfloat \<Rightarrow> bool" where
  "py_gt NaN _ = False"
| "py_gt _ NaN = False"
| "py_gt PosInf PosInf = False"
| "py_gt PosInf _ = True"
| "py_gt _ PosInf = False"
| "py_gt NegInf _ = False"
| "py_gt _ NegInf = True"
| "py_gt (Finite a) (Finite b) = (a > b)"

fun py_abs :: "pyfloat \<Rightarrow> pyfloat" where
  "py_abs (Finite a) = Finite \<bar>a\<bar>"
| "py_abs PosInf = PosInf"
| "py_abs NegInf = PosInf"
| "py_abs NaN = NaN"

fun is_finite :: "pyfloat \<Rightarrow> bool" where
  "is_finite (Finite a) = True"
| "is_finite _ = False"

text \<open>
  Strings are ASCII strings. \<^verbatim>\<open>str.strip()\<close> removes the leading and trailing characters
  for which \<^verbatim>\<open>str.isspace()\<close> holds: in ASCII the codes 9 to 13 and 28 to 32.
\<close>

definition is_space :: "char \<Rightarrow> bool" where
  "is_space c =
     (let n = (of_char c :: nat) in (9 \<le> n \<and> n \<le> 13) \<or> (28 \<le> n \<and> n \<le> 32))"

definition strip :: "string \<Rightarrow> string" where
  "strip s = rev (dropWhile is_space (rev (dropWhile is_space s)))"

definition upper_char :: "char \<Rightarrow> char" where
  "upper_char c =
     (case map_of (zip ''abcdefghijklmnopqrstuvwxyz'' ''ABCDEFGHIJKLMNOPQRSTUVWXYZ'') c of
        Some u \<Rightarrow> u
      | None \<Rightarrow> c)"

definition upper :: "string \<Rightarrow> string" where
  "upper s = map upper_char s"

subsection \<open>The built-in \<^verbatim>\<open>float(str)\<close>\<close>

text \<open>
  The language reference gives the accepted strings:
  \<^verbatim>\<open>floatvalue ::= [sign] (floatnumber | infinity | nan)\<close>, case-insensitive, where
  \<^verbatim>\<open>floatnumber ::= number [exponent]\<close>,
  \<^verbatim>\<open>number ::= [digitpart] "." digitpart | digitpart ["."]\<close>,
  \<^verbatim>\<open>exponent ::= ("e" | "E") [sign] digitpart\<close> and
  \<^verbatim>\<open>digitpart ::= digit (["_"] digit)*\<close>. Surrounding whitespace is ignored. The value of
  a number is the decimal value rounded to the nearest binary64 float, ties to even, and
  an overflow gives an infinity. Any other string raises ValueError: the result None.
\<close>

text \<open>
  The whitespace that \<^verbatim>\<open>float\<close> itself ignores around an ASCII string is that of C's
  \<^verbatim>\<open>isspace\<close>: the codes 9 to 13 and 32.
\<close>

definition is_float_space :: "char \<Rightarrow> bool" where
  "is_float_space c = (let n = (of_char c :: nat) in (9 \<le> n \<and> n \<le> 13) \<or> n = 32)"

definition float_strip :: "string \<Rightarrow> string" where
  "float_strip s = rev (dropWhile is_float_space (rev (dropWhile is_float_space s)))"

definition is_digit :: "char \<Rightarrow> bool" where
  "is_digit c = (c \<in> set ''0123456789'')"

definition digit_val :: "char \<Rightarrow> nat" where
  "digit_val c = of_char c - 48"

text \<open>The value of a string of decimal digits, most significant first.\<close>

definition digits_val :: "string \<Rightarrow> nat" where
  "digits_val ds = foldl (\<lambda>acc c. 10 * acc + digit_val c) 0 ds"

text \<open>
  An underscore is allowed only between two digits; the underscores are then removed.
  The argument \<open>prev\<close> is the character before, if any.
\<close>

fun remove_underscores :: "char option \<Rightarrow> string \<Rightarrow> string option" where
  "remove_underscores prev [] = (if prev = Some CHR ''_'' then None else Some [])"
| "remove_underscores prev (c # cs) =
     (if c = CHR ''_'' then
        (case prev of
           None \<Rightarrow> None
         | Some p \<Rightarrow> if is_digit p then remove_underscores (Some c) cs else None)
      else if prev = Some CHR ''_'' \<and> \<not> is_digit c then None
      else map_option ((#) c) (remove_underscores (Some c) cs))"

text \<open>An optional sign: whether it is a minus, and the rest of the string.\<close>

fun take_sign :: "string \<Rightarrow> bool \<times> string" where
  "take_sign [] = (False, [])"
| "take_sign (c # cs) =
     (if c = CHR ''-'' then (True, cs)
      else if c = CHR ''+'' then (False, cs)
      else (False, c # cs))"

text \<open>The number of binary digits of a natural number (\<^verbatim>\<open>int.bit_length\<close>).\<close>

fun bit_length :: "nat \<Rightarrow> nat" where
  "bit_length n = (if n = 0 then 0 else Suc (bit_length (n div 2)))"

declare bit_length.simps [simp del]

text \<open>
  Rounding the positive rational \<open>a / b\<close> to binary64. The binary exponent \<open>e\<close> has
  \<open>2 ^ e \<le> a / b < 2 ^ (e + 1)\<close>, and is at least -1022 (below, the values are
  subnormal); the spacing of the floats there is \<open>2 ^ (e - 52)\<close>; the quotient by the
  spacing is rounded to the nearest integer, ties to even. The result is the magnitude,
  or None when it is beyond the largest float.
\<close>

definition pow2 :: "int \<Rightarrow> real" where
  "pow2 k = (if 0 \<le> k then 2 ^ nat k else 1 / 2 ^ nat (- k))"

definition round_half_even :: "nat \<Rightarrow> nat \<Rightarrow> nat" where
  "round_half_even num den =
     (let q = num div den; r = num mod den
      in if 2 * r < den then q
         else if den < 2 * r then q + 1
         else if even q then q else q + 1)"

definition binary_exponent :: "nat \<Rightarrow> nat \<Rightarrow> int" where
  "binary_exponent a b =
     (let d = int (bit_length a) - int (bit_length b)
      in if b * 2 ^ nat d \<le> a * 2 ^ nat (- d) then d else d - 1)"

definition round_to_double :: "nat \<Rightarrow> nat \<Rightarrow> real option" where
  "round_to_double a b =
     (if a = 0 then Some 0
      else
        let s = max (binary_exponent a b) (- 1022) - 52;
            n = round_half_even (a * 2 ^ nat (- s)) (b * 2 ^ nat s)
        in if 2 ^ 1024 \<le> real n * pow2 s then None else Some (real n * pow2 s))"

text \<open>
  The value of a decimal numeral with the digits \<open>ds\<close> and the decimal exponent \<open>e10\<close>.
\<close>

definition decimal_to_double :: "bool \<Rightarrow> string \<Rightarrow> int \<Rightarrow> pyfloat" where
  "decimal_to_double neg ds e10 =
     (case round_to_double (digits_val ds * 10 ^ nat e10) (10 ^ nat (- e10)) of
        None \<Rightarrow> (if neg then NegInf else PosInf)
      | Some r \<Rightarrow> Finite (if neg then - r else r))"

text \<open>The exponent part, after the number: empty, or \<^verbatim>\<open>e\<close>, a sign and digits.\<close>

definition parse_exponent :: "string \<Rightarrow> int option" where
  "parse_exponent s =
     (case s of
        [] \<Rightarrow> Some 0
      | c # cs \<Rightarrow>
          if c = CHR ''e'' \<or> c = CHR ''E'' then
            (let (neg, ds) = take_sign cs
             in if ds \<noteq> [] \<and> list_all is_digit ds
                then Some (if neg then - int (digits_val ds) else int (digits_val ds))
                else None)
          else None)"

definition py_float :: "string \<Rightarrow> pyfloat option" where
  "py_float s =
     (case remove_underscores None (float_strip s) of
        None \<Rightarrow> None
      | Some t \<Rightarrow>
          let (neg, body) = take_sign t
          in if upper body = ''INF'' \<or> upper body = ''INFINITY''
             then Some (if neg then NegInf else PosInf)
             else if upper body = ''NAN'' then Some NaN
             else
               let ip = takeWhile is_digit body;
                   r1 = dropWhile is_digit body;
                   fp = (case r1 of
                           [] \<Rightarrow> []
                         | c # cs \<Rightarrow> if c = CHR ''.'' then takeWhile is_digit cs else []);
                   r2 = (case r1 of
                           [] \<Rightarrow> []
                         | c # cs \<Rightarrow> if c = CHR ''.'' then dropWhile is_digit cs else r1)
               in if ip = [] \<and> fp = [] then None
                  else (case parse_exponent r2 of
                          None \<Rightarrow> None
                        | Some ex \<Rightarrow>
                            Some (decimal_to_double neg (ip @ fp) (ex - int (length fp)))))"

section \<open>Coordinate normalisation (logic.py)\<close>

definition invalid_tokens :: "string list" where
  "invalid_tokens = [''D$Q'', ''-'', '''', ''NAN'', ''NONE'', ''NULL'']"

text \<open>
  \<^verbatim>\<open>normalize_coordinate(coord)\<close>: None gives 0.0; so does a known invalid token, a string
  that \<^verbatim>\<open>float\<close> rejects (the ValueError is caught) and a value whose magnitude is
  greater than 180; any other value is returned as parsed.
\<close>

definition normalize_coordinate :: "string option \<Rightarrow> pyfloat" where
  "normalize_coordinate coord =
     (case coord of
        None \<Rightarrow> Finite 0
      | Some c \<Rightarrow>
          let coord_str = upper (strip c)
          in if coord_str \<in> set invalid_tokens then Finite 0
             else (case py_float coord_str of
                     None \<Rightarrow> Finite 0
                   | Some v \<Rightarrow> if py_gt (py_abs v) (Finite 180) then Finite 0 else v))"

section \<open>The data model (models.py, state.py)\<close>

datatype ZoneTransition = ENTER | EXIT | CHANGE

text \<open>A \<^verbatim>\<open>datetime\<close> is an instant, counted from some epoch.\<close>

type_synonym datetime = int

record LocationEvent =
  event_vehicle_id :: string
  latitude :: string
  longitude :: string
  event_timestamp :: "datetime option"

record Zone =
  zone_id :: string
  name :: string
  min_lat :: pyfloat
  max_lat :: pyfloat
  min_lng :: pyfloat
  max_lng :: pyfloat

text \<open>
  \<^verbatim>\<open>Zone.contains\<close>: the chained comparisons \<^verbatim>\<open>min_lat <= lat <= max_lat and
  min_lng <= lng <= max_lng\<close>.
\<close>

definition contains :: "Zone \<Rightarrow> pyfloat \<Rightarrow> pyfloat \<Rightarrow> bool" where
  "contains z lat lng =
     ((py_le (min_lat z) lat \<and> py_le lat (max_lat z)) \<and>
      (py_le (min_lng z) lng \<and> py_le lng (max_lng z)))"

text \<open>
  An entry of the transition history. The source stores the name of the transition and
  the ISO text of the timestamp; the model keeps the transition and the instant.
\<close>

record TransitionRecord =
  transition :: ZoneTransition
  from_zone :: "string option"
  to_zone :: "string option"
  timestamp :: datetime

record VehicleState =
  vehicle_id :: string
  current_zone :: "string option"
  last_update :: "datetime option"
  last_latitude :: "pyfloat option"
  last_longitude :: "pyfloat option"
  transition_history :: "TransitionRecord list"

record VehicleStatus =
  status_vehicle_id :: string
  status_current_zone :: "string option"
  status_last_update :: "datetime option"
  status_last_latitude :: "pyfloat option"
  status_last_longitude :: "pyfloat option"
  status_transition_history :: "TransitionRecord list"

definition VehicleState_init :: "string \<Rightarrow> VehicleState" where
  "VehicleState_init vid =
     \<lparr>vehicle_id = vid, current_zone = None, last_update = None, last_latitude = None,
      last_longitude = None, transition_history = []\<rparr>"

definition update_location :: "pyfloat \<Rightarrow> pyfloat \<Rightarrow> datetime \<Rightarrow> VehicleState \<Rightarrow> VehicleState" where
  "update_location lat lng ts vs =
     vs\<lparr>last_latitude := Some lat, last_longitude := Some lng, last_update := Some ts\<rparr>"

text \<open>
  \<^verbatim>\<open>update_zone\<close>: the record is appended, and a history longer than 100 is cut to
  its last 100 entries (\<^verbatim>\<open>transition_history[-100:]\<close>).
\<close>

definition update_zone ::
  "string option \<Rightarrow> ZoneTransition \<Rightarrow> datetime \<Rightarrow> VehicleState \<Rightarrow> VehicleState" where
  "update_zone zid tr ts vs =
     (let old_zone = current_zone vs;
          transition_record =
            \<lparr>transition = tr, from_zone = old_zone, to_zone = zid, timestamp = ts\<rparr>;
          h = transition_history vs @ [transition_record]
      in vs\<lparr>current_zone := zid,
            transition_history := (if length h > 100 then drop (length h - 100) h else h)\<rparr>)"

definition to_status :: "VehicleState \<Rightarrow> VehicleStatus" where
  "to_status vs =
     \<lparr>status_vehicle_id = vehicle_id vs,
      status_current_zone = current_zone vs,
      status_last_update = last_update vs,
      status_last_latitude = last_latitude vs,
      status_last_longitude = last_longitude vs,
      status_transition_history = transition_history vs\<rparr>"

text \<open>The state manager: the vehicles and the number of vehicles in each zone.\<close>

record StateManager =
  vehicles :: "string \<rightharpoonup> VehicleState"
  zone_counts :: "string \<rightharpoonup> int"

definition StateManager_init :: StateManager where
  "StateManager_init = \<lparr>vehicles = Map.empty, zone_counts = Map.empty\<rparr>"

text \<open>\<^verbatim>\<open>get_vehicle\<close>: get or create; a new vehicle is stored.\<close>

definition get_vehicle :: "string \<Rightarrow> StateManager \<Rightarrow> VehicleState \<times> StateManager" where
  "get_vehicle vid sm =
     (case vehicles sm vid of
        None \<Rightarrow>
          (VehicleState_init vid, sm\<lparr>vehicles := (vehicles sm)(vid \<mapsto> VehicleState_init vid)\<rparr>)
      | Some vs \<Rightarrow> (vs, sm))"

text \<open>\<^verbatim>\<open>dict.get(zone, 0)\<close> on the counts.\<close>

definition counts_get :: "(string \<rightharpoonup> int) \<Rightarrow> string \<Rightarrow> int" where
  "counts_get m z = (case m z of None \<Rightarrow> 0 | Some c \<Rightarrow> c)"

text \<open>
  \<^verbatim>\<open>update_zone_count\<close>. The tests \<^verbatim>\<open>if old_zone:\<close> and \<^verbatim>\<open>if new_zone:\<close> are tests of
  truth: they fail for None and for the empty string.
\<close>

definition update_zone_count :: "string option \<Rightarrow> string option \<Rightarrow> StateManager \<Rightarrow> StateManager" where
  "update_zone_count old_zone new_zone sm =
     (let c1 = (case old_zone of
                  None \<Rightarrow> zone_counts sm
                | Some z \<Rightarrow>
                    if z \<noteq> [] then (zone_counts sm)(z \<mapsto> max 0 (counts_get (zone_counts sm) z - 1))
                    else zone_counts sm);
          c2 = (case new_zone of
                  None \<Rightarrow> c1
                | Some z \<Rightarrow> if z \<noteq> [] then c1(z \<mapsto> counts_get c1 z + 1) else c1)
      in sm\<lparr>zone_counts := c2\<rparr>)"

definition get_zone_count :: "string \<Rightarrow> StateManager \<Rightarrow> int" where
  "get_zone_count z sm = counts_get (zone_counts sm) z"

section \<open>Zone lookup (zones.py)\<close>

text \<open>\<^verbatim>\<open>find_zone\<close>: the loop returns the first zone that contains the point.\<close>

fun find_zone :: "pyfloat \<Rightarrow> pyfloat \<Rightarrow> Zone list \<Rightarrow> Zone option" where
  "find_zone lat lng [] = None"
| "find_zone lat lng (z # zs) = (if contains z lat lng then Some z else find_zone lat lng zs)"

section \<open>Processing an event (logic.py)\<close>

text \<open>The classification of the transition, from the old and the new zone id.\<close>

definition classify_transition :: "string option \<Rightarrow> string option \<Rightarrow> ZoneTransition option" where
  "classify_transition old_zone_id new_zone_id =
     (if old_zone_id = None \<and> new_zone_id \<noteq> None then Some ENTER
      else if old_zone_id \<noteq> None \<and> new_zone_id = None then Some EXIT
      else if old_zone_id \<noteq> new_zone_id \<and> old_zone_id \<noteq> None \<and> new_zone_id \<noteq> None
      then Some CHANGE
      else None)"

text \<open>
  \<^verbatim>\<open>process_location_event\<close>. The argument \<open>zones\<close> is the catalog that
  \<^verbatim>\<open>get_zones()\<close> returns, and \<open>now\<close> is what \<^verbatim>\<open>datetime.utcnow()\<close> reads when the
  event has no timestamp. The vehicle's state is an object of the store, so its updates
  are written back under the vehicle's id. The result is the returned pair and the new
  state.
\<close>

definition process_location_event ::
  "Zone list \<Rightarrow> datetime \<Rightarrow> LocationEvent \<Rightarrow> StateManager \<Rightarrow>
     (string option \<times> ZoneTransition option) \<times> StateManager" where
  "process_location_event zones now event sm =
     (let lat = normalize_coordinate (Some (latitude event));
          lng = normalize_coordinate (Some (longitude event));
          (vehicle_state, sm1) = get_vehicle (event_vehicle_id event) sm;
          old_zone_id = current_zone vehicle_state;
          new_zone = find_zone lat lng zones;
          new_zone_id = (case new_zone of None \<Rightarrow> None | Some z \<Rightarrow> Some (zone_id z));
          trans = classify_transition old_zone_id new_zone_id;
          ts = (case event_timestamp event of None \<Rightarrow> now | Some t \<Rightarrow> t);
          vs1 = update_location lat lng ts vehicle_state
      in case trans of
           None \<Rightarrow>
             ((new_zone_id, None),
              sm1\<lparr>vehicles := (vehicles sm1)(event_vehicle_id event \<mapsto> vs1)\<rparr>)
         | Some tr \<Rightarrow>
             ((new_zone_id, Some tr),
              update_zone_count old_zone_id new_zone_id
                (sm1\<lparr>vehicles :=
                   (vehicles sm1)(event_vehicle_id event \<mapsto> update_zone new_zone_id tr ts vs1)\<rparr>)))"

text \<open>A run of events, each with the reading of the clock when it is processed.\<close>

fun process_all :: "Zone list \<Rightarrow> (datetime \<times> LocationEvent) list \<Rightarrow> StateManager \<Rightarrow> StateManager" where
  "process_all zones [] sm = sm"
| "process_all zones ((now, event) # es) sm =
     process_all zones es (snd (process_location_event zones now event sm))"

text \<open>\<^verbatim>\<open>get_vehicle_status\<close> (main.py): the status of the vehicle that \<^verbatim>\<open>get_vehicle\<close> returns.\<close>

definition get_vehicle_status :: "string \<Rightarrow> StateManager \<Rightarrow> VehicleStatus \<times> StateManager" where
  "get_vehicle_status vid sm = (let (vs, sm1) = get_vehicle vid sm in (to_status vs, sm1))"

section \<open>Loading the catalog (zones.py)\<close>

text \<open>
  What \<^verbatim>\<open>json.load\<close> returns: a number is a Python int or float, an object is a dict,
  given by its items in order, with distinct keys.
\<close>

datatype json =
  JNull | JBool bool | JNum pyfloat | JStr string | JList "json list" | JDict "(string \<times> json) list"



text \<open>The float literals of the default zones have the values that \<^verbatim>\<open>float\<close> reads.\<close>

definition get_default_zones :: "Zone list" where
  "get_default_zones =
     [\<lparr>zone_id = ''zone_1'', name = ''Downtown'',
       min_lat = decimal_to_double False ''377749'' (- 4),
       max_lat = decimal_to_double False ''377849'' (- 4),
       min_lng = decimal_to_double True ''1224194'' (- 4),
       max_lng = decimal_to_double True ''1224094'' (- 4)\<rparr>,
      \<lparr>zone_id = ''zone_2'', name = ''Airport'',
       min_lat = decimal_to_double False ''376213'' (- 4),
       max_lat = decimal_to_double False ''376313'' (- 4),
       min_lng = decimal_to_double True ''1223789'' (- 4),
       max_lng = decimal_to_double True ''1223689'' (- 4)\<rparr>]"











section \<open>Notions for the properties\<close>

text \<open>The history of a vehicle in the store; a vehicle that is not there has none.\<close>

definition history_of :: "string \<Rightarrow> StateManager \<Rightarrow> TransitionRecord list" where
  "history_of v sm = (case vehicles sm v of None \<Rightarrow> [] | Some vs \<Rightarrow> transition_history vs)"

text \<open>The last \<open>n\<close> elements of a list (all of them when there are fewer).\<close>

definition newest :: "nat \<Rightarrow> 'a list \<Rightarrow> 'a list" where
  "newest n xs = drop (length xs - n) xs"

text \<open>
  The records of the transitions of the vehicle \<open>v\<close> in a run of events, in the order of
  the events: one record for each event of \<open>v\<close> for which \<open>process_location_event\<close>
  returns a transition, with that transition, the zone before, the zone returned and the
  timestamp of the event (the clock's reading when the event has none).
\<close>

fun produced ::
  "Zone list \<Rightarrow> string \<Rightarrow> (datetime \<times> LocationEvent) list \<Rightarrow> StateManager \<Rightarrow> TransitionRecord list" where
  "produced zones v [] sm = []"
| "produced zones v ((now, event) # es) sm =
     (case snd (fst (process_location_event zones now event sm)) of
        None \<Rightarrow> []
      | Some tr \<Rightarrow>
          if event_vehicle_id event = v
          then [\<lparr>transition = tr,
                 from_zone = current_zone (fst (get_vehicle v sm)),
                 to_zone = fst (fst (process_location_event zones now event sm)),
                 timestamp = (case event_timestamp event of None \<Rightarrow> now | Some t \<Rightarrow> t)\<rparr>]
          else [])
     @ produced zones v es (snd (process_location_event zones now event sm))"

definition history_bounded :: "StateManager \<Rightarrow> bool" where
  "history_bounded sm =
     (\<forall>v vs. vehicles sm v = Some vs \<longrightarrow> length (transition_history vs) \<le> 100)"

definition counts_nonneg :: "StateManager \<Rightarrow> bool" where
  "counts_nonneg sm = (\<forall>z. 0 \<le> get_zone_count z sm)"

text \<open>A sequence of calls of \<open>update_zone_count\<close>.\<close>

fun update_all :: "(string option \<times> string option) list \<Rightarrow> StateManager \<Rightarrow> StateManager" where
  "update_all [] sm = sm"
| "update_all ((old_zone, new_zone) # us) sm = update_all us (update_zone_count old_zone new_zone sm)"

text \<open>The two events of \<^verbatim>\<open>test_exit_zone\<close>: into the default zone Downtown, and out of it.\<close>

definition enter_event :: LocationEvent where
  "enter_event =
     \<lparr>event_vehicle_id = ''vehicle_1'', latitude = ''37.78'', longitude = ''-122.41'',
      event_timestamp = None\<rparr>"

definition exit_event :: LocationEvent where
  "exit_event =
     \<lparr>event_vehicle_id = ''vehicle_1'', latitude = ''37.70'', longitude = ''-122.50'',
      event_timestamp = None\<rparr>"

section \<open>Evaluating the parser\<close>

lemma bit_length_numeral:
  "bit_length (numeral (Num.Bit0 n)) = Suc (bit_length (numeral n))"
  "bit_length (numeral (Num.Bit1 n)) = Suc (bit_length (numeral n))"
  "bit_length (numeral Num.One) = 1"
  "bit_length (Suc 0) = 1"
  "bit_length 1 = 1"
  "bit_length 0 = 0"
  by (subst bit_length.simps,
      simp add: numeral_Bit0_div_2 numeral_Bit1_div_2 bit_length.simps[of 0])+

lemmas parse_defs = upper_def upper_char_def strip_def is_space_def float_strip_def
  is_float_space_def py_float_def is_digit_def
  parse_exponent_def decimal_to_double_def digits_val_def digit_val_def









section \<open>Comparisons of floats\<close>

lemma py_le_refl: "py_le a b \<Longrightarrow> py_le a a \<and> py_le b b"
  by (cases a; cases b) simp_all


section \<open>The transition table\<close>

text \<open>
  C1. The classification of a transition in \<open>process_location_event\<close> is the table of
  the specification: no old zone and a new zone is ENTER; an old zone and no new zone is
  EXIT; two different zones is CHANGE; no transition otherwise (no zone before and after,
  or the same zone). The transition that \<open>process_location_event\<close> returns is this
  classification of the vehicle's current zone and of the zone found for the event: two
  stores in which the vehicle has the same current zone give the same result, whatever
  the rest of the vehicle's state and history.
\<close>

theorem transition_table:
  "classify_transition None None = None
   \<and> classify_transition None (Some z) = Some ENTER
   \<and> classify_transition (Some z) None = Some EXIT
   \<and> classify_transition (Some z) (Some z) = None
   \<and> (z2 \<noteq> z \<longrightarrow> classify_transition (Some z) (Some z2) = Some CHANGE)
   \<and> snd (fst (process_location_event zones now event sm)) =
       classify_transition
         (current_zone (fst (get_vehicle (event_vehicle_id event) sm)))
         (map_option zone_id
            (find_zone (normalize_coordinate (Some (latitude event)))
               (normalize_coordinate (Some (longitude event))) zones))
   \<and> (current_zone (fst (get_vehicle (event_vehicle_id event) sm2)) =
        current_zone (fst (get_vehicle (event_vehicle_id event) sm))
      \<longrightarrow> fst (process_location_event zones now event sm2) =
          fst (process_location_event zones now event sm))"
  by (auto simp: classify_transition_def process_location_event_def Let_def map_option_case
      split: prod.splits option.splits)

theorem transition_table_witness:
  "''zone_2'' \<noteq> ''zone_1''
   \<and> classify_transition (Some ''zone_1'') (Some ''zone_2'') = Some CHANGE
   \<and> current_zone (fst (get_vehicle ''v1''
        \<lparr>vehicles = [''v1'' \<mapsto> (VehicleState_init ''v1'')\<lparr>last_update := Some 7\<rparr>],
         zone_counts = Map.empty\<rparr>)) =
      current_zone (fst (get_vehicle ''v1'' StateManager_init))
   \<and> fst (process_location_event [] 0
        \<lparr>event_vehicle_id = ''v1'', latitude = ''x'', longitude = ''y'', event_timestamp = None\<rparr>
        \<lparr>vehicles = [''v1'' \<mapsto> (VehicleState_init ''v1'')\<lparr>last_update := Some 7\<rparr>],
         zone_counts = Map.empty\<rparr>) =
      fst (process_location_event [] 0
        \<lparr>event_vehicle_id = ''v1'', latitude = ''x'', longitude = ''y'', event_timestamp = None\<rparr>
        StateManager_init)"
  using transition_table [where z = "''zone_1''" and ?z2.0 = "''zone_2''" and zones = "[]"
      and now = 0 and sm = StateManager_init
      and event = "\<lparr>event_vehicle_id = ''v1'', latitude = ''x'', longitude = ''y'',
        event_timestamp = None\<rparr>"
      and ?sm2.0 = "\<lparr>vehicles = [''v1'' \<mapsto> (VehicleState_init ''v1'')\<lparr>last_update := Some 7\<rparr>],
        zone_counts = Map.empty\<rparr>"]
  by (simp add: get_vehicle_def StateManager_init_def VehicleState_init_def)

section \<open>Zone lookup\<close>

lemma find_zone_find: "find_zone lat lng zs = List.find (\<lambda>z. contains z lat lng) zs"
  by (induction zs) simp_all

text \<open>
  C2. \<open>find_zone\<close> returns the first zone of the catalog, in its order, that contains
  the point, and None when no zone contains it. A zone contains a point when the four
  comparisons hold, all of them inclusive: a point of the rectangle that lies on one of
  the four bounds is inside the zone.
\<close>

theorem find_zone_first_containing:
  "(find_zone lat lng zones = Some z \<longleftrightarrow>
      (\<exists>i < length zones. zones ! i = z \<and> contains z lat lng
         \<and> (\<forall>j < i. \<not> contains (zones ! j) lat lng)))
   \<and> (find_zone lat lng zones = None \<longleftrightarrow> (\<forall>z' \<in> set zones. \<not> contains z' lat lng))
   \<and> (contains z lat lng \<longleftrightarrow>
        py_le (min_lat z) lat \<and> py_le lat (max_lat z)
        \<and> py_le (min_lng z) lng \<and> py_le lng (max_lng z))
   \<and> (py_le (min_lat z) (max_lat z) \<and> py_le (min_lng z) lng \<and> py_le lng (max_lng z)
        \<longrightarrow> contains z (min_lat z) lng \<and> contains z (max_lat z) lng)
   \<and> (py_le (min_lng z) (max_lng z) \<and> py_le (min_lat z) lat \<and> py_le lat (max_lat z)
        \<longrightarrow> contains z lat (min_lng z) \<and> contains z lat (max_lng z))"
proof -
  have "find_zone lat lng zones = Some z \<longleftrightarrow>
      (\<exists>i < length zones. zones ! i = z \<and> contains z lat lng
         \<and> (\<forall>j < i. \<not> contains (zones ! j) lat lng))"
    unfolding find_zone_find find_Some_iff by auto
  moreover have "find_zone lat lng zones = None \<longleftrightarrow> (\<forall>z' \<in> set zones. \<not> contains z' lat lng)"
    unfolding find_zone_find find_None_iff by auto
  moreover have "py_le (min_lat z) (max_lat z) \<and> py_le (min_lng z) lng \<and> py_le lng (max_lng z)
        \<longrightarrow> contains z (min_lat z) lng \<and> contains z (max_lat z) lng"
    using py_le_refl[of "min_lat z" "max_lat z"] by (auto simp: contains_def)
  moreover have "py_le (min_lng z) (max_lng z) \<and> py_le (min_lat z) lat \<and> py_le lat (max_lat z)
        \<longrightarrow> contains z lat (min_lng z) \<and> contains z lat (max_lng z)"
    using py_le_refl[of "min_lng z" "max_lng z"] by (auto simp: contains_def)
  ultimately show ?thesis by (simp add: contains_def)
qed

theorem find_zone_first_containing_witness:
  "py_le (Finite 0) (Finite 2) \<and> py_le (Finite 0) (Finite 1) \<and> py_le (Finite 1) (Finite 2)
   \<and> contains \<lparr>zone_id = ''a'', name = ''A'', min_lat = Finite 0, max_lat = Finite 2,
        min_lng = Finite 0, max_lng = Finite 2\<rparr> (Finite 2) (Finite 1)
   \<and> contains \<lparr>zone_id = ''b'', name = ''B'', min_lat = Finite 1, max_lat = Finite 3,
        min_lng = Finite 1, max_lng = Finite 3\<rparr> (Finite 2) (Finite 1)
   \<and> find_zone (Finite 2) (Finite 1)
       [\<lparr>zone_id = ''a'', name = ''A'', min_lat = Finite 0, max_lat = Finite 2,
         min_lng = Finite 0, max_lng = Finite 2\<rparr>,
        \<lparr>zone_id = ''b'', name = ''B'', min_lat = Finite 1, max_lat = Finite 3,
         min_lng = Finite 1, max_lng = Finite 3\<rparr>] =
      Some \<lparr>zone_id = ''a'', name = ''A'', min_lat = Finite 0, max_lat = Finite 2,
        min_lng = Finite 0, max_lng = Finite 2\<rparr>
   \<and> find_zone (Finite 5) (Finite 1)
       [\<lparr>zone_id = ''a'', name = ''A'', min_lat = Finite 0, max_lat = Finite 2,
         min_lng = Finite 0, max_lng = Finite 2\<rparr>,
        \<lparr>zone_id = ''b'', name = ''B'', min_lat = Finite 1, max_lat = Finite 3,
         min_lng = Finite 1, max_lng = Finite 3\<rparr>] = None"
  using find_zone_first_containing [where lat = "Finite 2" and lng = "Finite 1"
      and z = "\<lparr>zone_id = ''a'', name = ''A'', min_lat = Finite 0, max_lat = Finite 2,
        min_lng = Finite 0, max_lng = Finite 2\<rparr>"
      and zones = "[\<lparr>zone_id = ''a'', name = ''A'', min_lat = Finite 0, max_lat = Finite 2,
         min_lng = Finite 0, max_lng = Finite 2\<rparr>,
        \<lparr>zone_id = ''b'', name = ''B'', min_lat = Finite 1, max_lat = Finite 3,
         min_lng = Finite 1, max_lng = Finite 3\<rparr>]"]
    find_zone_first_containing [where lat = "Finite 5" and lng = "Finite 1"
      and zones = "[\<lparr>zone_id = ''a'', name = ''A'', min_lat = Finite 0, max_lat = Finite 2,
         min_lng = Finite 0, max_lng = Finite 2\<rparr>,
        \<lparr>zone_id = ''b'', name = ''B'', min_lat = Finite 1, max_lat = Finite 3,
         min_lng = Finite 1, max_lng = Finite 3\<rparr>]"]
  by (simp add: contains_def)

section \<open>Coordinate normalisation\<close>




text \<open>
  C4. The result of \<open>normalize_coordinate\<close> is not always finite: \<^verbatim>\<open>float\<close> reads a signed
  \<^verbatim>\<open>nan\<close>, which is not the token \<^verbatim>\<open>NAN\<close>, and NaN passes the test of the range, because
  \<^verbatim>\<open>abs(value) > 180\<close> is false for it. The result for \<^verbatim>\<open>"-nan"\<close> is NaN.
\<close>

theorem normalize_coordinate_signed_nan:
  "normalize_coordinate (Some ''-nan'') = NaN \<and> \<not> is_finite (normalize_coordinate (Some ''-nan''))"
  by (simp add: normalize_coordinate_def invalid_tokens_def parse_defs)

section \<open>The transition history\<close>

lemmas double_defs = round_to_double_def binary_exponent_def bit_length_numeral
  round_half_even_def pow2_def Let_def

lemma default_zones_values:
  "get_default_zones =
     [\<lparr>zone_id = ''zone_1'', name = ''Downtown'',
       min_lat = Finite (332271534304605 / 8796093022208),
       max_lat = Finite (5317751923757233 / 140737488355328),
       min_lng = Finite (- (538406215061445 / 4398046511104)),
       max_lng = Finite (- (269181117298167 / 2199023255552))\<rparr>,
      \<lparr>zone_id = ''zone_2'', name = ''Airport'',
       min_lat = Finite (5294727270662301 / 140737488355328),
       max_lat = Finite (5296134645545855 / 140737488355328),
       min_lng = Finite (- (8611649506843925 / 70368744177664)),
       max_lng = Finite (- (2152736454850537 / 17592186044416))\<rparr>]"
  by (simp add: get_default_zones_def parse_defs double_defs)

lemma normalize_examples:
  "normalize_coordinate (Some ''37.78'') = Finite (1329265577516073 / 35184372088832)"
  "normalize_coordinate (Some ''-122.41'') = Finite (- (4306918987393925 / 35184372088832))"
  "normalize_coordinate (Some ''37.70'') = Finite (2652901655497933 / 70368744177664)"
  "normalize_coordinate (Some ''-122.50'') = Finite (- (245 / 2))"
  by (simp_all add: normalize_coordinate_def invalid_tokens_def parse_defs double_defs)

lemma find_zone_examples:
  "map_option zone_id (find_zone (Finite (1329265577516073 / 35184372088832))
     (Finite (- (4306918987393925 / 35184372088832))) get_default_zones) = Some ''zone_1''"
  "find_zone (Finite (2652901655497933 / 70368744177664)) (Finite (- (245 / 2)))
     get_default_zones = None"
  by (simp_all add: default_zones_values contains_def)

lemma update_zone_history:
  "transition_history (update_zone zid tr ts vs) =
     newest 100 (transition_history vs @
       [\<lparr>transition = tr, from_zone = current_zone vs, to_zone = zid, timestamp = ts\<rparr>])"
  by (simp add: update_zone_def newest_def Let_def)

lemma length_newest: "length (newest n xs) \<le> n"
  by (simp add: newest_def)

lemma newest_short: "length xs \<le> n \<Longrightarrow> newest n xs = xs"
  by (simp add: newest_def)

lemma newest_append: "newest n (newest n xs @ ys) = newest n (xs @ ys)"
proof (cases "length xs \<le> n")
  case True
  then show ?thesis by (simp add: newest_def)
next
  case False
  then have "length xs + length ys - (length xs - n + n) + (length xs - n) =
    length xs + length ys - n" by simp
  then show ?thesis by (simp add: newest_def)
qed

lemma update_location_fields:
  "transition_history (update_location lat lng ts vs) = transition_history vs"
  "current_zone (update_location lat lng ts vs) = current_zone vs"
  "vehicle_id (update_location lat lng ts vs) = vehicle_id vs"
  by (simp_all add: update_location_def)

lemma update_zone_count_vehicles: "vehicles (update_zone_count a b sm) = vehicles sm"
  by (simp add: update_zone_count_def Let_def)

text \<open>The vehicles after an event: only the event's vehicle has a new state.\<close>

lemma process_vehicles:
  "vehicles (snd (process_location_event zones now event sm)) =
     (vehicles sm)(event_vehicle_id event \<mapsto>
        (let lat = normalize_coordinate (Some (latitude event));
             lng = normalize_coordinate (Some (longitude event));
             ts = (case event_timestamp event of None \<Rightarrow> now | Some t \<Rightarrow> t);
             vs1 = update_location lat lng ts (fst (get_vehicle (event_vehicle_id event) sm))
         in case snd (fst (process_location_event zones now event sm)) of
              None \<Rightarrow> vs1
            | Some tr \<Rightarrow> update_zone (fst (fst (process_location_event zones now event sm))) tr ts vs1))"
  by (auto simp: process_location_event_def Let_def get_vehicle_def update_zone_count_vehicles
      split: option.splits prod.splits)

lemma history_of_get_vehicle:
  "transition_history (fst (get_vehicle v sm)) = history_of v sm"
  by (simp add: get_vehicle_def history_of_def VehicleState_init_def split: option.splits)

lemma process_history_of:
  "history_of v (snd (process_location_event zones now event sm)) =
     newest 100 (history_of v sm @ produced zones v [(now, event)] sm)"
  if "length (history_of v sm) \<le> 100"
proof (cases "event_vehicle_id event = v")
  case False
  then show ?thesis using that
    by (simp add: history_of_def process_vehicles newest_short split: option.splits)
next
  case True
  show ?thesis
  proof (cases "snd (fst (process_location_event zones now event sm))")
    case None
    then show ?thesis using True that history_of_get_vehicle[of v sm]
      by (simp add: history_of_def[of v "snd _"] process_vehicles newest_short Let_def
          update_location_fields)
  next
    case (Some tr)
    then show ?thesis using True history_of_get_vehicle[of v sm]
      by (simp add: history_of_def[of v "snd _"] process_vehicles Let_def
          update_zone_history update_location_fields)
  qed
qed

lemma process_all_history_of:
  "length (history_of v sm) \<le> 100 \<Longrightarrow>
   history_of v (process_all zones es sm) = newest 100 (history_of v sm @ produced zones v es sm)"
proof (induction es arbitrary: sm)
  case Nil
  then show ?case by (simp add: newest_short)
next
  case (Cons a es)
  obtain now event where a: "a = (now, event)" by (cases a)
  let ?sm1 = "snd (process_location_event zones now event sm)"
  have h1: "history_of v ?sm1 = newest 100 (history_of v sm @ produced zones v [(now, event)] sm)"
    using Cons.prems by (rule process_history_of)
  then have "length (history_of v ?sm1) \<le> 100" by (simp add: length_newest)
  then have "history_of v (process_all zones es ?sm1) =
      newest 100 (history_of v ?sm1 @ produced zones v es ?sm1)"
    by (rule Cons.IH)
  also have "\<dots> = newest 100 ((history_of v sm @ produced zones v [(now, event)] sm)
      @ produced zones v es ?sm1)"
    unfolding h1 by (rule newest_append)
  finally show ?case by (simp add: a)
qed

lemma history_bounded_iff: "history_bounded sm \<longleftrightarrow> (\<forall>v. length (history_of v sm) \<le> 100)"
  by (auto simp: history_bounded_def history_of_def split: option.splits)

lemma process_all_bounded: "history_bounded sm \<Longrightarrow> history_bounded (process_all zones es sm)"
  unfolding history_bounded_iff by (simp add: process_all_history_of length_newest)


lemma current_zone_after:
  "current_zone (fst (get_vehicle (event_vehicle_id event)
      (snd (process_location_event zones now event sm)))) =
   (case snd (fst (process_location_event zones now event sm)) of
      None \<Rightarrow> current_zone (fst (get_vehicle (event_vehicle_id event) sm))
    | Some tr \<Rightarrow> fst (fst (process_location_event zones now event sm)))"
  by (simp add: get_vehicle_def[of _ "snd _"] process_vehicles Let_def update_location_fields
      update_zone_def split: option.splits)

lemma process_result:
  "fst (process_location_event zones now event sm) =
     (map_option zone_id
        (find_zone (normalize_coordinate (Some (latitude event)))
           (normalize_coordinate (Some (longitude event))) zones),
      classify_transition
        (current_zone (fst (get_vehicle (event_vehicle_id event) sm)))
        (map_option zone_id
           (find_zone (normalize_coordinate (Some (latitude event)))
              (normalize_coordinate (Some (longitude event))) zones)))"
  by (auto simp: process_location_event_def Let_def map_option_case
      split: prod.splits option.splits)

lemma enter_step:
  assumes "current_zone (fst (get_vehicle ''vehicle_1'' sm)) = None"
  shows "fst (process_location_event get_default_zones now enter_event sm) =
      (Some ''zone_1'', Some ENTER)"
  using assms
  by (simp add: process_result enter_event_def normalize_examples find_zone_examples
      classify_transition_def)

lemma exit_step:
  assumes "current_zone (fst (get_vehicle ''vehicle_1'' sm)) = Some ''zone_1''"
  shows "fst (process_location_event get_default_zones now exit_event sm) = (None, Some EXIT)"
  using assms
  by (simp add: process_result exit_event_def normalize_examples find_zone_examples
      classify_transition_def)

lemma event_ids: "event_vehicle_id enter_event = ''vehicle_1''"
  "event_vehicle_id exit_event = ''vehicle_1''"
  by (simp_all add: enter_event_def exit_event_def)

lemma produced_alternating:
  "current_zone (fst (get_vehicle ''vehicle_1'' sm)) = None \<Longrightarrow>
   length (produced get_default_zones ''vehicle_1''
     (concat (replicate n [(t, enter_event), (t, exit_event)])) sm) = 2 * n"
proof (induction n arbitrary: sm)
  case 0
  then show ?case by simp
next
  case (Suc n)
  let ?sm1 = "snd (process_location_event get_default_zones t enter_event sm)"
  let ?sm2 = "snd (process_location_event get_default_zones t exit_event ?sm1)"
  have e1: "fst (process_location_event get_default_zones t enter_event sm) =
      (Some ''zone_1'', Some ENTER)"
    using Suc.prems by (rule enter_step)
  have z1: "current_zone (fst (get_vehicle ''vehicle_1'' ?sm1)) = Some ''zone_1''"
    using current_zone_after[of enter_event get_default_zones t sm] e1 by (simp add: event_ids)
  have e2: "fst (process_location_event get_default_zones t exit_event ?sm1) = (None, Some EXIT)"
    using z1 by (rule exit_step)
  have z2: "current_zone (fst (get_vehicle ''vehicle_1'' ?sm2)) = None"
    using current_zone_after[of exit_event get_default_zones t ?sm1] e2 by (simp add: event_ids)
  have "length (produced get_default_zones ''vehicle_1''
     (concat (replicate n [(t, enter_event), (t, exit_event)])) ?sm2) = 2 * n"
    using z2 by (rule Suc.IH)
  then show ?case using e1 e2 by (simp add: event_ids)
qed


text \<open>
  C5. The transition history of a vehicle never has more than 100 entries, after any run
  of events. \<open>update_zone\<close> appends the new record at the end and keeps the last 100
  entries: below 100 entries nothing is dropped, and at 100 entries the oldest one is.
  After a run of events the history of a vehicle is the last 100 of its earlier history
  followed by the records of its transitions, in their order; after 150 transitions from
  an empty history these are the last 100 records, the first 50 dropped.
\<close>

theorem history_never_exceeds_100:
  "(history_bounded sm \<longrightarrow> history_bounded (process_all zones es sm))
   \<and> history_bounded (process_all zones es StateManager_init)
   \<and> transition_history (update_zone zid tr ts vs) =
       newest 100 (transition_history vs @
         [\<lparr>transition = tr, from_zone = current_zone vs, to_zone = zid, timestamp = ts\<rparr>])
   \<and> (length (transition_history vs) < 100 \<longrightarrow>
        transition_history (update_zone zid tr ts vs) =
          transition_history vs @
            [\<lparr>transition = tr, from_zone = current_zone vs, to_zone = zid, timestamp = ts\<rparr>])
   \<and> (length (transition_history vs) = 100 \<longrightarrow>
        transition_history (update_zone zid tr ts vs) =
          tl (transition_history vs) @
            [\<lparr>transition = tr, from_zone = current_zone vs, to_zone = zid, timestamp = ts\<rparr>])
   \<and> (length (history_of v sm) \<le> 100 \<longrightarrow>
        history_of v (process_all zones es sm) =
          newest 100 (history_of v sm @ produced zones v es sm))
   \<and> (history_of v sm = [] \<and> length (produced zones v es sm) = 150 \<longrightarrow>
        history_of v (process_all zones es sm) = drop 50 (produced zones v es sm)
        \<and> length (history_of v (process_all zones es sm)) = 100)"
proof -
  have init: "history_bounded StateManager_init"
    by (simp add: history_bounded_def StateManager_init_def)
  have c1: "history_bounded sm \<longrightarrow> history_bounded (process_all zones es sm)"
    by (simp add: process_all_bounded)
  have c2: "history_bounded (process_all zones es StateManager_init)"
    using init by (rule process_all_bounded)
  have c4: "length (transition_history vs) < 100 \<longrightarrow>
        transition_history (update_zone zid tr ts vs) =
          transition_history vs @
            [\<lparr>transition = tr, from_zone = current_zone vs, to_zone = zid, timestamp = ts\<rparr>]"
    by (simp add: update_zone_def Let_def)
  have c5: "length (transition_history vs) = 100 \<longrightarrow>
        transition_history (update_zone zid tr ts vs) =
          tl (transition_history vs) @
            [\<lparr>transition = tr, from_zone = current_zone vs, to_zone = zid, timestamp = ts\<rparr>]"
    by (simp add: update_zone_def Let_def drop_Suc)
  have c6: "length (history_of v sm) \<le> 100 \<longrightarrow>
        history_of v (process_all zones es sm) =
          newest 100 (history_of v sm @ produced zones v es sm)"
    by (simp add: process_all_history_of)
  have c7: "history_of v sm = [] \<and> length (produced zones v es sm) = 150 \<longrightarrow>
        history_of v (process_all zones es sm) = drop 50 (produced zones v es sm)
        \<and> length (history_of v (process_all zones es sm)) = 100"
    using process_all_history_of[of v sm zones es] by (simp add: newest_def)
  show ?thesis
    using c1 c2 c4 c5 c6 c7 update_zone_history[of zid tr ts vs] by blast
qed

theorem history_never_exceeds_100_witness:
  "history_bounded StateManager_init
   \<and> history_bounded (process_all get_default_zones
        (concat (replicate 75 [(0, enter_event), (0, exit_event)])) StateManager_init)
   \<and> length (transition_history (VehicleState_init ''vehicle_1'')) < 100
   \<and> transition_history (update_zone (Some ''zone_1'') ENTER 0 (VehicleState_init ''vehicle_1'')) =
       [\<lparr>transition = ENTER, from_zone = None, to_zone = Some ''zone_1'', timestamp = 0\<rparr>]
   \<and> length (transition_history ((VehicleState_init ''vehicle_1'')
        \<lparr>transition_history := replicate 100
           \<lparr>transition = ENTER, from_zone = None, to_zone = Some ''zone_1'', timestamp = 0\<rparr>\<rparr>)) = 100
   \<and> transition_history (update_zone None EXIT 1 ((VehicleState_init ''vehicle_1'')
        \<lparr>transition_history := replicate 100
           \<lparr>transition = ENTER, from_zone = None, to_zone = Some ''zone_1'', timestamp = 0\<rparr>\<rparr>)) =
       replicate 99 \<lparr>transition = ENTER, from_zone = None, to_zone = Some ''zone_1'', timestamp = 0\<rparr>
       @ [\<lparr>transition = EXIT, from_zone = None, to_zone = None, timestamp = 1\<rparr>]
   \<and> length (history_of ''vehicle_1'' StateManager_init) \<le> 100
   \<and> history_of ''vehicle_1'' StateManager_init = []
   \<and> length (produced get_default_zones ''vehicle_1''
        (concat (replicate 75 [(0, enter_event), (0, exit_event)])) StateManager_init) = 150
   \<and> history_of ''vehicle_1'' (process_all get_default_zones
        (concat (replicate 75 [(0, enter_event), (0, exit_event)])) StateManager_init) =
       drop 50 (produced get_default_zones ''vehicle_1''
        (concat (replicate 75 [(0, enter_event), (0, exit_event)])) StateManager_init)
   \<and> length (history_of ''vehicle_1'' (process_all get_default_zones
        (concat (replicate 75 [(0, enter_event), (0, exit_event)])) StateManager_init)) = 100"
proof -
  have h0: "history_of ''vehicle_1'' StateManager_init = []"
    by (simp add: history_of_def StateManager_init_def)
  have b0: "history_bounded StateManager_init"
    by (simp add: history_bounded_def StateManager_init_def)
  have z0: "current_zone (fst (get_vehicle ''vehicle_1'' StateManager_init)) = None"
    by (simp add: get_vehicle_def StateManager_init_def VehicleState_init_def)
  have p: "length (produced get_default_zones ''vehicle_1''
        (concat (replicate 75 [(0, enter_event), (0, exit_event)])) StateManager_init) = 150"
    using produced_alternating[OF z0, of 75 0] by simp
  have v0: "transition_history (VehicleState_init ''vehicle_1'') = []"
    "current_zone (VehicleState_init ''vehicle_1'') = None"
    by (simp_all add: VehicleState_init_def)
  note T = history_never_exceeds_100 [where sm = StateManager_init and zones = get_default_zones
      and es = "concat (replicate 75 [(0, enter_event), (0, exit_event)])"
      and v = "''vehicle_1''" and vs = "VehicleState_init ''vehicle_1''"
      and zid = "Some ''zone_1''" and tr = ENTER and ts = 0]
  note T2 = history_never_exceeds_100 [where zid = None and tr = EXIT and ts = 1
      and vs = "(VehicleState_init ''vehicle_1'')
        \<lparr>transition_history := replicate 100
           \<lparr>transition = ENTER, from_zone = None, to_zone = Some ''zone_1'', timestamp = 0\<rparr>\<rparr>"]
  have r: "tl (replicate 100 x) = replicate 99 x" for x :: TransitionRecord
    by (simp add: tl_replicate)
  show ?thesis
    using T T2 h0 b0 p v0 r by (simp add: newest_def)
qed

section \<open>The counts of the zones\<close>

lemma counts_get_dec:
  "(\<forall>z. 0 \<le> counts_get m z) \<Longrightarrow> 0 \<le> counts_get (m(k \<mapsto> max 0 (counts_get m k - 1))) z"
  by (simp add: counts_get_def)

lemma counts_get_inc:
  "(\<forall>z. 0 \<le> counts_get m z) \<Longrightarrow> 0 \<le> counts_get (m(k \<mapsto> counts_get m k + 1)) z"
proof -
  assume a: "\<forall>z. 0 \<le> counts_get m z"
  then have "0 \<le> counts_get m k" and "0 \<le> counts_get m z" by simp_all
  then show ?thesis by (simp add: counts_get_def)
qed

lemma update_zone_count_nonneg:
  assumes "counts_nonneg sm"
  shows "counts_nonneg (update_zone_count old_zone new_zone sm)"
proof -
  let ?c1 = "case old_zone of
                  None \<Rightarrow> zone_counts sm
                | Some z \<Rightarrow>
                    if z \<noteq> [] then (zone_counts sm)(z \<mapsto> max 0 (counts_get (zone_counts sm) z - 1))
                    else zone_counts sm"
  let ?c2 = "case new_zone of
                  None \<Rightarrow> ?c1
                | Some z \<Rightarrow> if z \<noteq> [] then ?c1(z \<mapsto> counts_get ?c1 z + 1) else ?c1"
  have 0: "\<forall>z. 0 \<le> counts_get (zone_counts sm) z"
    using assms by (simp add: counts_nonneg_def get_zone_count_def)
  have 1: "\<forall>z. 0 \<le> counts_get ?c1 z"
    using 0 counts_get_dec[OF 0] by (cases old_zone) simp_all
  have 2: "\<forall>z. 0 \<le> counts_get ?c2 z"
    using 1 counts_get_inc[OF 1] by (cases new_zone) simp_all
  have "zone_counts (update_zone_count old_zone new_zone sm) = ?c2"
    by (simp add: update_zone_count_def Let_def)
  then show ?thesis
    using 2 by (simp add: counts_nonneg_def get_zone_count_def)
qed


lemma counts_nonneg_init: "counts_nonneg StateManager_init"
  by (simp add: counts_nonneg_def get_zone_count_def counts_get_def StateManager_init_def)

lemma update_all_nonneg: "counts_nonneg sm \<Longrightarrow> counts_nonneg (update_all us sm)"
  by (induction us sm rule: update_all.induct) (simp_all add: update_zone_count_nonneg)

lemma get_vehicle_zone_counts: "zone_counts (snd (get_vehicle v sm)) = zone_counts sm"
  by (simp add: get_vehicle_def split: option.splits)

lemma process_zone_counts:
  "zone_counts (snd (process_location_event zones now event sm)) =
     (case snd (fst (process_location_event zones now event sm)) of
        None \<Rightarrow> zone_counts sm
      | Some tr \<Rightarrow>
          zone_counts (update_zone_count
            (current_zone (fst (get_vehicle (event_vehicle_id event) sm)))
            (fst (fst (process_location_event zones now event sm))) sm))"
proof -
  obtain vs sm1 where g: "get_vehicle (event_vehicle_id event) sm = (vs, sm1)"
    by (cases "get_vehicle (event_vehicle_id event) sm")
  have z: "zone_counts sm1 = zone_counts sm"
    using get_vehicle_zone_counts[of "event_vehicle_id event" sm] g by simp
  show ?thesis
    using z
    by (simp add: process_location_event_def Let_def g update_zone_count_def
        split: option.splits)
qed

lemma process_nonneg:
  assumes "counts_nonneg sm"
  shows "counts_nonneg (snd (process_location_event zones now event sm))"
proof (cases "snd (fst (process_location_event zones now event sm))")
  case None
  then have "zone_counts (snd (process_location_event zones now event sm)) = zone_counts sm"
    by (simp add: process_zone_counts)
  then show ?thesis
    using assms by (simp add: counts_nonneg_def get_zone_count_def)
next
  case (Some tr)
  then have "zone_counts (snd (process_location_event zones now event sm)) =
      zone_counts (update_zone_count
            (current_zone (fst (get_vehicle (event_vehicle_id event) sm)))
            (fst (fst (process_location_event zones now event sm))) sm)"
    by (simp add: process_zone_counts)
  then show ?thesis
    using update_zone_count_nonneg[OF assms] by (simp add: counts_nonneg_def get_zone_count_def)
qed

lemma process_all_nonneg: "counts_nonneg sm \<Longrightarrow> counts_nonneg (process_all zones es sm)"
  by (induction zones es sm rule: process_all.induct) (simp_all add: process_nonneg)


text \<open>
  C6. The count of every zone is never negative. \<open>update_zone_count\<close> keeps all the
  counts non-negative, so they are non-negative after any sequence of updates and after
  any run of events from the initial state. The count of the old zone becomes the
  maximum of zero and the count less one: it stays zero when the count is zero or the
  zone is not in the map.
\<close>

theorem zone_counts_never_negative:
  "(counts_nonneg sm \<longrightarrow> counts_nonneg (update_zone_count old_zone new_zone sm))
   \<and> 0 \<le> get_zone_count z (update_all us StateManager_init)
   \<and> 0 \<le> get_zone_count z (process_all zones es StateManager_init)
   \<and> (counts_nonneg sm \<longrightarrow> 0 \<le> get_zone_count z (process_all zones es sm))
   \<and> (z \<noteq> [] \<and> new_zone \<noteq> Some z \<longrightarrow>
        get_zone_count z (update_zone_count (Some z) new_zone sm) =
          max 0 (get_zone_count z sm - 1))
   \<and> (z \<noteq> [] \<and> zone_counts sm z \<in> {None, Some 0} \<longrightarrow>
        get_zone_count z (update_zone_count (Some z) None sm) = 0)"
proof -
  have "counts_nonneg (update_all us StateManager_init)"
    using counts_nonneg_init by (rule update_all_nonneg)
  then have a: "0 \<le> get_zone_count z (update_all us StateManager_init)"
    by (simp add: counts_nonneg_def)
  have "counts_nonneg (process_all zones es StateManager_init)"
    using counts_nonneg_init by (rule process_all_nonneg)
  then have b: "0 \<le> get_zone_count z (process_all zones es StateManager_init)"
    by (simp add: counts_nonneg_def)
  have c: "counts_nonneg sm \<longrightarrow> 0 \<le> get_zone_count z (process_all zones es sm)"
    using process_all_nonneg[of sm zones es] by (simp add: counts_nonneg_def)
  have d: "z \<noteq> [] \<and> new_zone \<noteq> Some z \<longrightarrow>
        get_zone_count z (update_zone_count (Some z) new_zone sm) =
          max 0 (get_zone_count z sm - 1)"
    by (cases new_zone)
      (simp_all add: get_zone_count_def update_zone_count_def counts_get_def Let_def)
  have e: "z \<noteq> [] \<and> zone_counts sm z \<in> {None, Some 0} \<longrightarrow>
        get_zone_count z (update_zone_count (Some z) None sm) = 0"
    by (auto simp: get_zone_count_def update_zone_count_def counts_get_def Let_def)
  have f: "counts_nonneg sm \<longrightarrow> counts_nonneg (update_zone_count old_zone new_zone sm)"
    by (simp add: update_zone_count_nonneg)
  show ?thesis
    using a b c d e f by blast
qed

theorem zone_counts_never_negative_witness:
  "counts_nonneg StateManager_init
   \<and> counts_nonneg (update_zone_count (Some ''zone_1'') None StateManager_init)
   \<and> ''zone_1'' \<noteq> [] \<and> None \<noteq> Some ''zone_1''
   \<and> zone_counts StateManager_init ''zone_1'' \<in> {None, Some 0}
   \<and> get_zone_count ''zone_1'' (update_zone_count (Some ''zone_1'') None StateManager_init) = 0
   \<and> 0 \<le> get_zone_count ''zone_1''
        (process_all get_default_zones [(0, enter_event), (1, exit_event), (2, exit_event)]
           StateManager_init)"
proof -
  have z: "zone_counts StateManager_init ''zone_1'' = None"
    by (simp add: StateManager_init_def)
  show ?thesis
    using zone_counts_never_negative [where sm = StateManager_init and z = "''zone_1''"
        and old_zone = "Some ''zone_1''" and new_zone = None and zones = get_default_zones
        and es = "[(0, enter_event), (1, exit_event), (2, exit_event)]"]
      counts_nonneg_init z
    by (simp add: get_zone_count_def[of _ StateManager_init] counts_get_def)
qed

section \<open>Events without a transition\<close>

lemma update_zone_location_fields:
  "last_latitude (update_zone zid tr ts vs) = last_latitude vs"
  "last_longitude (update_zone zid tr ts vs) = last_longitude vs"
  "last_update (update_zone zid tr ts vs) = last_update vs"
  by (simp_all add: update_zone_def Let_def)

lemma process_no_transition:
  assumes "snd (fst (process_location_event zones now event sm)) = None"
  shows "vehicles (snd (process_location_event zones now event sm)) =
      (vehicles sm)(event_vehicle_id event \<mapsto>
         update_location (normalize_coordinate (Some (latitude event)))
           (normalize_coordinate (Some (longitude event)))
           (case event_timestamp event of None \<Rightarrow> now | Some t \<Rightarrow> t)
           (fst (get_vehicle (event_vehicle_id event) sm)))"
    and "zone_counts (snd (process_location_event zones now event sm)) = zone_counts sm"
  using assms by (simp_all add: process_vehicles process_zone_counts Let_def)

text \<open>
  C7. When an event gives no transition, processing it again gives no transition
  either; after the first and after the second processing the history of every vehicle
  and the counts of the zones are what they were before. The vehicle of the event has
  the state it had (a new state when it was not in the store), with the location and the
  time of the last update set.
\<close>

theorem no_transition_idempotent:
  "snd (fst (process_location_event zones now event sm)) = None \<longrightarrow>
     snd (fst (process_location_event zones now2 event
        (snd (process_location_event zones now event sm)))) = None
     \<and> history_of v (snd (process_location_event zones now event sm)) = history_of v sm
     \<and> history_of v (snd (process_location_event zones now2 event
          (snd (process_location_event zones now event sm)))) = history_of v sm
     \<and> zone_counts (snd (process_location_event zones now event sm)) = zone_counts sm
     \<and> zone_counts (snd (process_location_event zones now2 event
          (snd (process_location_event zones now event sm)))) = zone_counts sm
     \<and> vehicles (snd (process_location_event zones now2 event
          (snd (process_location_event zones now event sm)))) =
        (vehicles sm)(event_vehicle_id event \<mapsto>
           (fst (get_vehicle (event_vehicle_id event) sm))
             \<lparr>last_latitude := Some (normalize_coordinate (Some (latitude event))),
              last_longitude := Some (normalize_coordinate (Some (longitude event))),
              last_update := Some (case event_timestamp event of None \<Rightarrow> now2 | Some t \<Rightarrow> t)\<rparr>)"
proof
  let ?sm1 = "snd (process_location_event zones now event sm)"
  let ?sm2 = "snd (process_location_event zones now2 event ?sm1)"
  let ?id = "event_vehicle_id event"
  let ?lat = "normalize_coordinate (Some (latitude event))"
  let ?lng = "normalize_coordinate (Some (longitude event))"
  assume n1: "snd (fst (process_location_event zones now event sm)) = None"
  have cz: "current_zone (fst (get_vehicle ?id ?sm1)) = current_zone (fst (get_vehicle ?id sm))"
    using current_zone_after[of event zones now sm] n1 by simp
  have n2: "snd (fst (process_location_event zones now2 event ?sm1)) = None"
    using n1 cz by (simp add: process_result)
  have v1: "vehicles ?sm1 = (vehicles sm)(?id \<mapsto>
      update_location ?lat ?lng (case event_timestamp event of None \<Rightarrow> now | Some t \<Rightarrow> t)
        (fst (get_vehicle ?id sm)))"
    using n1 by (rule process_no_transition(1))
  have g1: "fst (get_vehicle ?id ?sm1) =
      update_location ?lat ?lng (case event_timestamp event of None \<Rightarrow> now | Some t \<Rightarrow> t)
        (fst (get_vehicle ?id sm))"
    by (simp add: get_vehicle_def[of ?id ?sm1] v1)
  have v2: "vehicles ?sm2 = (vehicles ?sm1)(?id \<mapsto>
      update_location ?lat ?lng (case event_timestamp event of None \<Rightarrow> now2 | Some t \<Rightarrow> t)
        (fst (get_vehicle ?id ?sm1)))"
    using n2 by (rule process_no_transition(1))
  have v2': "vehicles ?sm2 = (vehicles sm)(?id \<mapsto>
           (fst (get_vehicle ?id sm))
             \<lparr>last_latitude := Some ?lat, last_longitude := Some ?lng,
              last_update := Some (case event_timestamp event of None \<Rightarrow> now2 | Some t \<Rightarrow> t)\<rparr>)"
    unfolding v2 g1 by (simp add: v1 update_location_def)
  have z1: "zone_counts ?sm1 = zone_counts sm"
    using n1 by (rule process_no_transition(2))
  have z2: "zone_counts ?sm2 = zone_counts ?sm1"
    using n2 by (rule process_no_transition(2))
  have h1: "history_of v ?sm1 = history_of v sm"
    using history_of_get_vehicle[of ?id sm]
    by (simp add: history_of_def[of v ?sm1] v1 update_location_fields)
      (simp add: history_of_def)
  have h2: "history_of v ?sm2 = history_of v sm"
    using history_of_get_vehicle[of ?id sm]
    by (simp add: history_of_def[of v ?sm2] v2')
      (simp add: history_of_def)
  show "snd (fst (process_location_event zones now2 event ?sm1)) = None
     \<and> history_of v ?sm1 = history_of v sm
     \<and> history_of v ?sm2 = history_of v sm
     \<and> zone_counts ?sm1 = zone_counts sm
     \<and> zone_counts ?sm2 = zone_counts sm
     \<and> vehicles ?sm2 = (vehicles sm)(?id \<mapsto>
           (fst (get_vehicle ?id sm))
             \<lparr>last_latitude := Some ?lat, last_longitude := Some ?lng,
              last_update := Some (case event_timestamp event of None \<Rightarrow> now2 | Some t \<Rightarrow> t)\<rparr>)"
    using n2 h1 h2 z1 z2 v2' by simp
qed


lemma init_current_zone: "current_zone (fst (get_vehicle v StateManager_init)) = None"
  by (simp add: get_vehicle_def StateManager_init_def VehicleState_init_def)

lemma exit_outside:
  "fst (process_location_event get_default_zones now exit_event StateManager_init) = (None, None)"
  by (simp add: process_result exit_event_def normalize_examples find_zone_examples
      classify_transition_def init_current_zone)

theorem no_transition_idempotent_witness:
  "snd (fst (process_location_event get_default_zones 0 exit_event StateManager_init)) = None
   \<and> snd (fst (process_location_event get_default_zones 1 exit_event
        (snd (process_location_event get_default_zones 0 exit_event StateManager_init)))) = None
   \<and> history_of ''vehicle_1'' (snd (process_location_event get_default_zones 1 exit_event
        (snd (process_location_event get_default_zones 0 exit_event StateManager_init)))) = []
   \<and> zone_counts (snd (process_location_event get_default_zones 1 exit_event
        (snd (process_location_event get_default_zones 0 exit_event StateManager_init)))) =
       Map.empty"
proof -
  have h: "history_of ''vehicle_1'' StateManager_init = []"
    by (simp add: history_of_def StateManager_init_def)
  have z: "zone_counts StateManager_init = Map.empty"
    by (simp add: StateManager_init_def)
  show ?thesis
    using no_transition_idempotent [where zones = get_default_zones and now = 0 and ?now2.0 = 1
        and event = exit_event and sm = StateManager_init and v = "''vehicle_1''"]
      exit_outside[of 0] h z
    by simp
qed

section \<open>The effect of an event on the store\<close>

text \<open>
  C8. After an event, the vehicle of the event is in the store, its last latitude and
  longitude are the normalised coordinates and its last update is the timestamp of the
  event, or the reading of the clock when the event has none, with or without a
  transition. No other vehicle changes, and the counts change only with a transition.
\<close>

theorem process_updates_one_vehicle:
  "(\<exists>vs. vehicles (snd (process_location_event zones now event sm)) (event_vehicle_id event) =
        Some vs
      \<and> last_latitude vs = Some (normalize_coordinate (Some (latitude event)))
      \<and> last_longitude vs = Some (normalize_coordinate (Some (longitude event)))
      \<and> last_update vs = Some (case event_timestamp event of None \<Rightarrow> now | Some t \<Rightarrow> t))
   \<and> (w \<noteq> event_vehicle_id event \<longrightarrow>
        vehicles (snd (process_location_event zones now event sm)) w = vehicles sm w)
   \<and> (zone_counts (snd (process_location_event zones now event sm)) \<noteq> zone_counts sm \<longrightarrow>
        snd (fst (process_location_event zones now event sm)) \<noteq> None)"
proof -
  have a: "\<exists>vs. vehicles (snd (process_location_event zones now event sm)) (event_vehicle_id event) =
        Some vs
      \<and> last_latitude vs = Some (normalize_coordinate (Some (latitude event)))
      \<and> last_longitude vs = Some (normalize_coordinate (Some (longitude event)))
      \<and> last_update vs = Some (case event_timestamp event of None \<Rightarrow> now | Some t \<Rightarrow> t)"
    by (cases "snd (fst (process_location_event zones now event sm))")
      (simp_all add: process_vehicles Let_def update_zone_location_fields update_location_def)
  have b: "w \<noteq> event_vehicle_id event \<longrightarrow>
        vehicles (snd (process_location_event zones now event sm)) w = vehicles sm w"
    by (simp add: process_vehicles)
  have c: "zone_counts (snd (process_location_event zones now event sm)) \<noteq> zone_counts sm \<longrightarrow>
        snd (fst (process_location_event zones now event sm)) \<noteq> None"
    using process_no_transition(2)[of zones now event sm] by blast
  show ?thesis using a b c by blast
qed

theorem process_updates_one_vehicle_witness:
  "''vehicle_2'' \<noteq> event_vehicle_id enter_event
   \<and> vehicles (snd (process_location_event get_default_zones 0 enter_event StateManager_init))
        ''vehicle_2'' = None
   \<and> zone_counts (snd (process_location_event get_default_zones 0 enter_event StateManager_init))
        \<noteq> zone_counts StateManager_init
   \<and> snd (fst (process_location_event get_default_zones 0 enter_event StateManager_init)) \<noteq> None"
proof -
  have e: "fst (process_location_event get_default_zones 0 enter_event StateManager_init) =
      (Some ''zone_1'', Some ENTER)"
    using init_current_zone by (rule enter_step)
  have "zone_counts (snd (process_location_event get_default_zones 0 enter_event StateManager_init)) =
      zone_counts (update_zone_count None (Some ''zone_1'') StateManager_init)"
    using e by (simp add: process_zone_counts event_ids init_current_zone)
  then have "zone_counts
      (snd (process_location_event get_default_zones 0 enter_event StateManager_init))
      ''zone_1'' = Some 1"
    by (simp add: update_zone_count_def StateManager_init_def counts_get_def Let_def)
  moreover have "zone_counts StateManager_init ''zone_1'' = None"
    by (simp add: StateManager_init_def)
  ultimately have z: "zone_counts
      (snd (process_location_event get_default_zones 0 enter_event StateManager_init))
      \<noteq> zone_counts StateManager_init"
    by auto
  have v: "vehicles StateManager_init ''vehicle_2'' = None"
    by (simp add: StateManager_init_def)
  show ?thesis
    using process_updates_one_vehicle [where zones = get_default_zones and now = 0
        and event = enter_event and sm = StateManager_init and w = "''vehicle_2''"] z v
    by (simp add: event_ids)
qed

section \<open>The status of a vehicle\<close>

text \<open>
  C10. The status of a vehicle that is not in the store is the status of a new vehicle:
  no zone, no location, no update, an empty history. The query stores the new vehicle:
  the vehicles of the store are the ones before and this one, the counts are unchanged,
  and \<open>get_vehicle\<close> then finds the stored state.
\<close>

theorem status_of_unknown_vehicle_creates_it:
  "vehicles sm vid = None \<longrightarrow>
     fst (get_vehicle_status vid sm) =
       \<lparr>status_vehicle_id = vid, status_current_zone = None, status_last_update = None,
        status_last_latitude = None, status_last_longitude = None,
        status_transition_history = []\<rparr>
     \<and> vehicles (snd (get_vehicle_status vid sm)) = (vehicles sm)(vid \<mapsto> VehicleState_init vid)
     \<and> dom (vehicles (snd (get_vehicle_status vid sm))) = insert vid (dom (vehicles sm))
     \<and> vid \<notin> dom (vehicles sm)
     \<and> zone_counts (snd (get_vehicle_status vid sm)) = zone_counts sm
     \<and> get_vehicle vid (snd (get_vehicle_status vid sm)) =
         (VehicleState_init vid, snd (get_vehicle_status vid sm))"
  by (auto simp: get_vehicle_status_def get_vehicle_def to_status_def VehicleState_init_def)

theorem status_of_unknown_vehicle_creates_it_witness:
  "vehicles StateManager_init ''vehicle_9'' = None
   \<and> status_transition_history (fst (get_vehicle_status ''vehicle_9'' StateManager_init)) = []
   \<and> dom (vehicles (snd (get_vehicle_status ''vehicle_9'' StateManager_init))) = {''vehicle_9''}
   \<and> dom (vehicles StateManager_init) = {}"
proof -
  have v: "vehicles StateManager_init = Map.empty"
    by (simp add: StateManager_init_def)
  show ?thesis
    using status_of_unknown_vehicle_creates_it [where sm = StateManager_init
        and vid = "''vehicle_9''"] v
    by simp
qed

section \<open>Loading the catalog\<close>









end
